theory Spec2Isabelle
  imports Complex_Main
begin

section \<open>Tables\<close>

text \<open>
  The dashboard works on pandas tables. A table has named columns, each with a column
  type (the pandas dtype), and rows of cells. The dtype belongs to the column and not to
  its cells: a table without rows still has one dtype per column. The model keeps the
  four dtypes a spreadsheet read produces for the nine columns the program looks at.
  Numbers are modelled as reals (rounding of floating point is left out); a timestamp is
  the number of nanoseconds since the epoch, as pandas stores it; \<open>Null\<close> is the missing
  value (NaN, None, NaT). Column names are taken to be distinct, as a spreadsheet read
  makes them; a lookup takes the first column of that name.
\<close>

datatype dtype = Int64 | Float64 | Datetime64 | Object

datatype cell = Num real | Str string | Date int | Null

text \<open>A computed floating-point value: a number, infinity or NaN.\<close>

datatype float64 = Finite real | PosInf | NaN

datatype error = KeyError | IndexError | TypeError | AttributeError | NameError | ValueError

record series =
  dtype :: dtype
  cells :: "cell list"

record dataframe =
  cols :: "(string \<times> dtype) list"
  rows :: "cell list list"

definition columns :: "dataframe \<Rightarrow> string list" where
  "columns df = map fst (cols df)"

definition and_then :: "error + 'a \<Rightarrow> ('a \<Rightarrow> error + 'b) \<Rightarrow> error + 'b" where
  "and_then r f = (case r of Inl e \<Rightarrow> Inl e | Inr x \<Rightarrow> f x)"

fun index_of :: "'a \<Rightarrow> 'a list \<Rightarrow> nat option" where
  "index_of x [] = None"
| "index_of x (y # ys) = (if x = y then Some 0 else map_option Suc (index_of x ys))"

definition cell_at :: "cell list \<Rightarrow> nat \<Rightarrow> cell" where
  "cell_at r i = (if i < length r then r ! i else Null)"

text \<open>\<open>df[col]\<close>: the column as a series, KeyError when the table has no such column.\<close>

definition getitem :: "dataframe \<Rightarrow> string \<Rightarrow> error + series" where
  "getitem df col =
     (case index_of col (columns df) of
        None \<Rightarrow> Inl KeyError
      | Some i \<Rightarrow> Inr \<lparr>dtype = snd (cols df ! i), cells = map (\<lambda>r. cell_at r i) (rows df)\<rparr>)"

text \<open>\<open>len(df)\<close>: the number of rows.\<close>

definition len :: "dataframe \<Rightarrow> nat" where
  "len df = length (rows df)"

text \<open>Python's \<open>sep.join(xs)\<close>.\<close>

fun join :: "string \<Rightarrow> string list \<Rightarrow> string" where
  "join sep [] = []"
| "join sep [x] = x"
| "join sep (x # y # ys) = x @ sep @ join sep (y # ys)"

text \<open>Indexing a tuple: IndexError out of range.\<close>

definition tuple_get :: "'a list \<Rightarrow> nat \<Rightarrow> error + 'a" where
  "tuple_get xs i = (if i < length xs then Inr (xs ! i) else Inl IndexError)"

section \<open>The pandas operations the pipeline calls\<close>

text \<open>
  \<open>pd.to_datetime\<close> on a column: a timestamp stays as it is, a missing value becomes NaT,
  and any other cell (a string, a number) goes through pandas's parser, which is a
  parameter of the model (\<open>None\<close>: the parser rejects the value). The call raises when
  one cell is rejected; otherwise the result is a datetime column.
\<close>

definition to_datetime_cell :: "(cell \<Rightarrow> int option) \<Rightarrow> cell \<Rightarrow> cell option" where
  "to_datetime_cell parse c =
     (case c of Date t \<Rightarrow> Some (Date t) | Null \<Rightarrow> Some Null | _ \<Rightarrow> map_option Date (parse c))"

definition to_datetime :: "(cell \<Rightarrow> int option) \<Rightarrow> series \<Rightarrow> series option" where
  "to_datetime parse s =
     map_option (\<lambda>cs. \<lparr>dtype = Datetime64, cells = cs\<rparr>)
       (those (map (to_datetime_cell parse) (cells s)))"

text \<open>\<open>pd.api.types.is_numeric_dtype\<close> looks at the dtype of the column only.\<close>

fun is_numeric_dtype :: "dtype \<Rightarrow> bool" where
  "is_numeric_dtype Int64 = True"
| "is_numeric_dtype Float64 = True"
| "is_numeric_dtype Datetime64 = False"
| "is_numeric_dtype Object = False"

text \<open>
  \<open>Series.sum()\<close> and \<open>Series.mean()\<close> skip missing values. The mean of no values is
  NaN. A cell that is not a number makes the arithmetic of the caller raise TypeError.
\<close>

fun numeric_values :: "cell list \<Rightarrow> error + real list" where
  "numeric_values [] = Inr []"
| "numeric_values (Num x # cs) = and_then (numeric_values cs) (\<lambda>xs. Inr (x # xs))"
| "numeric_values (Null # cs) = numeric_values cs"
| "numeric_values (_ # cs) = Inl TypeError"

definition series_sum :: "series \<Rightarrow> error + real" where
  "series_sum s = and_then (numeric_values (cells s)) (\<lambda>xs. Inr (sum_list xs))"

definition mean_values :: "real list \<Rightarrow> float64" where
  "mean_values xs = (if xs = [] then NaN else Finite (sum_list xs / real (length xs)))"

definition series_mean :: "series \<Rightarrow> error + float64" where
  "series_mean s = and_then (numeric_values (cells s)) (\<lambda>xs. Inr (mean_values xs))"

text \<open>
  \<open>Series.dt.date\<close>: AttributeError unless the column is a datetime column; the calendar
  day of each timestamp (days since the epoch), NaT for a missing one.
\<close>

definition ns_per_day :: int where
  "ns_per_day = 86400000000000"

definition dt_date_cell :: "cell \<Rightarrow> int option" where
  "dt_date_cell c = (case c of Date t \<Rightarrow> Some (t div ns_per_day) | _ \<Rightarrow> None)"

definition dt_date :: "series \<Rightarrow> error + int option list" where
  "dt_date s = (if dtype s = Datetime64 then Inr (map dt_date_cell (cells s)) else Inl AttributeError)"

text \<open>Comparing a column of days with one day: a missing day compares false.\<close>

definition ge_date :: "int option list \<Rightarrow> int \<Rightarrow> bool list" where
  "ge_date ds d = map (\<lambda>x. case x of None \<Rightarrow> False | Some v \<Rightarrow> v \<ge> d) ds"

definition le_date :: "int option list \<Rightarrow> int \<Rightarrow> bool list" where
  "le_date ds d = map (\<lambda>x. case x of None \<Rightarrow> False | Some v \<Rightarrow> v \<le> d) ds"

definition isin :: "series \<Rightarrow> cell list \<Rightarrow> bool list" where
  "isin s vals = map (\<lambda>c. c \<in> set vals) (cells s)"

text \<open>\<open>m1 & m2\<close> on boolean columns, and \<open>df[mask]\<close>: a new table with the rows whose mask entry is true.\<close>

definition mask_and :: "bool list \<Rightarrow> bool list \<Rightarrow> bool list" where
  "mask_and m1 m2 = map (\<lambda>(a, b). a \<and> b) (zip m1 m2)"

definition boolean_index :: "dataframe \<Rightarrow> bool list \<Rightarrow> dataframe" where
  "boolean_index df m = df\<lparr>rows := map fst (filter snd (zip (rows df) m))\<rparr>"

section \<open>validate_dataset\<close>

definition REQUIRED_COLUMNS :: "string list" where
  "REQUIRED_COLUMNS =
     [''Order Date'', ''Ship Date'', ''Category'', ''Sub-Category'',
      ''Product Name'', ''Sales'', ''Discount'', ''Profit'', ''Quantity'']"

definition numeric_columns :: "string list" where
  "numeric_columns = [''Sales'', ''Discount'', ''Profit'', ''Quantity'']"

text \<open>The \<open>try\<close> block: both date columns convert, any exception in it is caught.\<close>

definition dates_convert :: "(cell \<Rightarrow> int option) \<Rightarrow> dataframe \<Rightarrow> bool" where
  "dates_convert parse df =
     ((case getitem df ''Order Date'' of Inl e \<Rightarrow> False | Inr s \<Rightarrow> to_datetime parse s \<noteq> None) \<and>
      (case getitem df ''Ship Date'' of Inl e \<Rightarrow> False | Inr s \<Rightarrow> to_datetime parse s \<noteq> None))"

text \<open>The loop over the numeric columns: the first column whose dtype is not numeric.\<close>

fun first_non_numeric :: "dataframe \<Rightarrow> string list \<Rightarrow> error + string option" where
  "first_non_numeric df [] = Inr None"
| "first_non_numeric df (col # cs) =
     and_then (getitem df col)
       (\<lambda>s. if \<not> is_numeric_dtype (dtype s) then Inr (Some col) else first_non_numeric df cs)"

definition validate_dataset :: "(cell \<Rightarrow> int option) \<Rightarrow> dataframe \<Rightarrow> error + bool \<times> string" where
  "validate_dataset parse df =
     (let missing_columns = filter (\<lambda>col. col \<notin> set (columns df)) REQUIRED_COLUMNS in
      if missing_columns \<noteq> [] then
        Inr (False, ''Missing required columns: '' @ join '', '' missing_columns)
      else if \<not> dates_convert parse df then
        Inr (False, ''Order Date and Ship Date must be valid date formats'')
      else
        and_then (first_non_numeric df numeric_columns)
          (\<lambda>bad. case bad of
               Some col \<Rightarrow>
                 Inr (False, ''Column '' @ [CHR 0x27] @ col @ [CHR 0x27] @ '' must contain numeric values'')
             | None \<Rightarrow> Inr (True, ''Dataset validation successful'')))"

section \<open>calculate_kpis\<close>

record kpis =
  total_sales :: real
  total_profit :: real
  profit_margin :: real
  avg_order_value :: float64
  total_orders :: nat

definition calculate_kpis :: "dataframe \<Rightarrow> error + kpis" where
  "calculate_kpis df =
     and_then (getitem df ''Sales'') (\<lambda>sales.
     and_then (series_sum sales) (\<lambda>total_sales.
     and_then (getitem df ''Profit'') (\<lambda>profit.
     and_then (series_sum profit) (\<lambda>total_profit.
     and_then (series_mean sales) (\<lambda>avg_order_value.
       Inr \<lparr>total_sales = total_sales,
            total_profit = total_profit,
            profit_margin = (if total_sales > 0 then (total_profit / total_sales) * 100 else 0),
            avg_order_value = avg_order_value,
            total_orders = len df\<rparr>)))))"

section \<open>The filter of show_analysis\<close>

text \<open>
  The expression under \<open># Filter data\<close>: three boolean columns joined with \<open>&\<close>, then
  \<open>df[mask]\<close>. \<open>date_range\<close> is the tuple the date widget hands back and \<open>categories\<close>
  the list of the category widget.
\<close>

definition filter_data :: "dataframe \<Rightarrow> int list \<Rightarrow> cell list \<Rightarrow> error + dataframe" where
  "filter_data df date_range categories =
     and_then (getitem df ''Order Date'') (\<lambda>od1.
     and_then (dt_date od1) (\<lambda>d1.
     and_then (tuple_get date_range 0) (\<lambda>start_date.
     and_then (getitem df ''Order Date'') (\<lambda>od2.
     and_then (dt_date od2) (\<lambda>d2.
     and_then (tuple_get date_range 1) (\<lambda>end_date.
     and_then (getitem df ''Category'') (\<lambda>cat.
       Inr (boolean_index df
              (mask_and (mask_and (ge_date d1 start_date) (le_date d2 end_date)) (isin cat categories))))))))))"

section \<open>The other steps of show_analysis\<close>

text \<open>
  \<open>df[col] = series\<close>: the assignment replaces the dtype and the cells of the column in the
  table object itself (a column of a new name is appended). The model returns the table
  after the assignment.
\<close>

definition setitem :: "dataframe \<Rightarrow> string \<Rightarrow> series \<Rightarrow> dataframe" where
  "setitem df col s =
     (case index_of col (columns df) of
        None \<Rightarrow>
          df\<lparr>cols := cols df @ [(col, dtype s)],
             rows := map (\<lambda>(r, c). r @ [c]) (zip (rows df) (cells s))\<rparr>
      | Some i \<Rightarrow>
          df\<lparr>cols := (cols df)[i := (col, dtype s)],
             rows := map (\<lambda>(r, c). r[i := c]) (zip (rows df) (cells s))\<rparr>)"

text \<open>
  The \<open>try\<close> block at the head of show_analysis (the same two assignments as in
  load_uploaded_data): the table after it, and whether both conversions went through.
  When the second conversion raises, the first assignment has already happened.
\<close>

definition convert_dates :: "(cell \<Rightarrow> int option) \<Rightarrow> dataframe \<Rightarrow> dataframe \<times> bool" where
  "convert_dates parse df =
     (case getitem df ''Order Date'' of
        Inl e \<Rightarrow> (df, False)
      | Inr od \<Rightarrow>
          (case to_datetime parse od of
             None \<Rightarrow> (df, False)
           | Some od' \<Rightarrow>
               (let df1 = setitem df ''Order Date'' od' in
                case getitem df1 ''Ship Date'' of
                  Inl e \<Rightarrow> (df1, False)
                | Inr sd \<Rightarrow>
                    (case to_datetime parse sd of
                       None \<Rightarrow> (df1, False)
                     | Some sd' \<Rightarrow> (setitem df1 ''Ship Date'' sd', True)))))"

text \<open>Sorting, by insertion: equal elements keep their order.\<close>

fun insort_by :: "('a \<Rightarrow> 'a \<Rightarrow> bool) \<Rightarrow> 'a \<Rightarrow> 'a list \<Rightarrow> 'a list" where
  "insort_by le x [] = [x]"
| "insort_by le x (y # ys) = (if le x y then x # y # ys else y # insort_by le x ys)"

definition sort_by :: "('a \<Rightarrow> 'a \<Rightarrow> bool) \<Rightarrow> 'a list \<Rightarrow> 'a list" where
  "sort_by le xs = foldr (insort_by le) xs []"

text \<open>
  The order of group keys: numbers by value, strings by code point, timestamps by time.
  A column of one dtype holds keys of one kind; between kinds the model orders by kind.
\<close>

fun str_le :: "string \<Rightarrow> string \<Rightarrow> bool" where
  "str_le [] ys = True"
| "str_le (x # xs) [] = False"
| "str_le (x # xs) (y # ys) = ((of_char x :: nat) < of_char y \<or> (x = y \<and> str_le xs ys))"

fun cell_rank :: "cell \<Rightarrow> nat" where
  "cell_rank (Num x) = 0"
| "cell_rank (Str s) = 1"
| "cell_rank (Date t) = 2"
| "cell_rank Null = 3"

fun cell_le :: "cell \<Rightarrow> cell \<Rightarrow> bool" where
  "cell_le (Num x) (Num y) = (x \<le> y)"
| "cell_le (Str s) (Str t) = str_le s t"
| "cell_le (Date s) (Date t) = (s \<le> t)"
| "cell_le a b = (cell_rank a \<le> cell_rank b)"

text \<open>
  \<open>df.groupby(key)[val]\<close>: the distinct keys that are not missing, in ascending order,
  each with the cells of \<open>val\<close> in the rows of that key.
\<close>

definition groupby :: "dataframe \<Rightarrow> string \<Rightarrow> string \<Rightarrow> error + (cell \<times> cell list) list" where
  "groupby df key val =
     and_then (getitem df key) (\<lambda>k.
     and_then (getitem df val) (\<lambda>v.
       Inr (map (\<lambda>g. (g, map snd (filter (\<lambda>p. fst p = g) (zip (cells k) (cells v)))))
              (sort_by cell_le (remdups (filter (\<lambda>c. c \<noteq> Null) (cells k)))))))"

fun sum_groups :: "(cell \<times> cell list) list \<Rightarrow> error + (cell \<times> real) list" where
  "sum_groups [] = Inr []"
| "sum_groups ((g, cs) # gs) =
     and_then (numeric_values cs) (\<lambda>xs.
     and_then (sum_groups gs) (\<lambda>rest. Inr ((g, sum_list xs) # rest)))"

fun mean_groups :: "(cell \<times> cell list) list \<Rightarrow> error + (cell \<times> float64) list" where
  "mean_groups [] = Inr []"
| "mean_groups ((g, cs) # gs) =
     and_then (numeric_values cs) (\<lambda>xs.
     and_then (mean_groups gs) (\<lambda>rest.
       Inr ((g, mean_values xs) # rest)))"

definition groupby_sum :: "dataframe \<Rightarrow> string \<Rightarrow> string \<Rightarrow> error + (cell \<times> real) list" where
  "groupby_sum df key val = and_then (groupby df key val) sum_groups"

definition groupby_mean :: "dataframe \<Rightarrow> string \<Rightarrow> string \<Rightarrow> error + (cell \<times> float64) list" where
  "groupby_mean df key val = and_then (groupby df key val) mean_groups"

text \<open>\<open>nlargest(n, 'Profit')\<close> and \<open>nsmallest(n, 'Profit')\<close> keep the first of equal values.\<close>

definition nlargest :: "nat \<Rightarrow> (cell \<times> real) list \<Rightarrow> (cell \<times> real) list" where
  "nlargest n t = take n (sort_by (\<lambda>a b. snd a \<ge> snd b) t)"

definition nsmallest :: "nat \<Rightarrow> (cell \<times> real) list \<Rightarrow> (cell \<times> real) list" where
  "nsmallest n t = take n (sort_by (\<lambda>a b. snd a \<le> snd b) t)"

text \<open>
  \<open>top_products['Product Name'].str[:30] + '...'\<close>, for one product name and for the
  column. The slice and the suffix are applied to every name. A key that is not a string
  gives a missing value.
\<close>

definition short_name :: "string \<Rightarrow> string" where
  "short_name name = take 30 name @ ''...''"

definition short_name_cell :: "cell \<Rightarrow> cell" where
  "short_name_cell c = (case c of Str name \<Rightarrow> Str (short_name name) | _ \<Rightarrow> Null)"

text \<open>A row of \<open>top_products\<close> after the assignment of the 'Short Name' column.\<close>

record product_row =
  product_name :: cell
  profit :: real
  short_name_col :: cell

definition add_short_name :: "(cell \<times> real) list \<Rightarrow> product_row list" where
  "add_short_name t =
     map (\<lambda>(name, p). \<lparr>product_name = name, profit = p, short_name_col = short_name_cell name\<rparr>) t"

text \<open>
  The negative-profit percentage of the insights:
  \<open>(filtered_df['Profit'] < 0).sum() / len(filtered_df) * 100\<close>.
  A missing profit compares false. The count is a numpy integer, so the division by a
  length of zero does not raise: numpy gives NaN for 0/0 and infinity for a positive
  count over zero.
\<close>

definition count_negative :: "series \<Rightarrow> error + nat" where
  "count_negative s =
     and_then (numeric_values (cells s)) (\<lambda>xs. Inr (length (filter (\<lambda>x. x < 0) xs)))"

definition np_divide :: "nat \<Rightarrow> nat \<Rightarrow> float64" where
  "np_divide a b =
     (if b = 0 then (if a = 0 then NaN else PosInf) else Finite (real a / real b))"

fun np_times :: "float64 \<Rightarrow> real \<Rightarrow> float64" where
  "np_times (Finite x) c = Finite (x * c)"
| "np_times PosInf c = (if c > 0 then PosInf else NaN)"
| "np_times NaN c = NaN"

definition negative_profit_pct :: "dataframe \<Rightarrow> error + float64" where
  "negative_profit_pct filtered_df =
     and_then (getitem filtered_df ''Profit'') (\<lambda>profit.
     and_then (count_negative profit) (\<lambda>n.
       Inr (np_times (np_divide n (len filtered_df)) 100)))"

text \<open>
  \<open>filtered_df.sort_values('Order Date', ascending=False)\<close>, the table shown on the page:
  latest order first, rows without an order date last.
\<close>

definition date_desc :: "nat \<Rightarrow> cell list \<Rightarrow> cell list \<Rightarrow> bool" where
  "date_desc i r1 r2 =
     (case (cell_at r1 i, cell_at r2 i) of
        (Date s, Date t) \<Rightarrow> s \<ge> t
      | (Date s, _) \<Rightarrow> True
      | (_, Date t) \<Rightarrow> False
      | (_, _) \<Rightarrow> True)"

definition sort_values_desc :: "dataframe \<Rightarrow> string \<Rightarrow> error + dataframe" where
  "sort_values_desc df col =
     (case index_of col (columns df) of
        None \<Rightarrow> Inl KeyError
      | Some i \<Rightarrow> Inr (df\<lparr>rows := sort_by (date_desc i) (rows df)\<rparr>))"

text \<open>
  \<open>df.to_csv(index=False)\<close>: the header record with the column names, then one record
  per row of the table, in the order of the table. The model keeps the records and leaves
  out how a cell is written as text.
\<close>

record csv_file =
  header :: "string list"
  records :: "cell list list"

definition to_csv :: "dataframe \<Rightarrow> csv_file" where
  "to_csv df = \<lparr>header = columns df, records = rows df\<rparr>"

section \<open>create_sales_forecast\<close>

text \<open>
  What the program takes from its surroundings: whether the two optional libraries were
  imported, the date parser of pandas and the forecasting library. The forecasting library is a function from the daily series and the number of
  periods to the forecast table, or to the exception it raises. A row of the forecast
  table has the columns the dashboard reads.
\<close>

record forecast_row =
  ds :: int
  yhat :: real
  yhat_lower :: real
  yhat_upper :: real
  trend :: real
  yearly :: real

record environment =
  PLOTLY_AVAILABLE :: bool
  PROPHET_AVAILABLE :: bool
  parse_date :: "cell \<Rightarrow> int option"
  prophet :: "(cell \<times> real) list \<Rightarrow> nat \<Rightarrow> error + forecast_row list"

text \<open>
  The function returns the pair \<open>(None, None)\<close>, modelled as \<open>None\<close>, when the
  forecasting library is not available, and the pair of the daily series and the forecast
  otherwise.
\<close>

definition create_sales_forecast ::
  "environment \<Rightarrow> dataframe \<Rightarrow> nat \<Rightarrow> error + ((cell \<times> real) list \<times> forecast_row list) option" where
  "create_sales_forecast env df periods =
     (if \<not> PROPHET_AVAILABLE env then Inr None
      else
        and_then (groupby_sum df ''Order Date'' ''Sales'') (\<lambda>sales_data.
        and_then (prophet env sales_data periods) (\<lambda>forecast.
          Inr (Some (sales_data, forecast)))))"

section \<open>show_analysis\<close>

text \<open>
  The widgets of the page hand back the date range (a tuple), the selected categories,
  the ranking view, the forecast horizon and the components switch.
\<close>

record widgets =
  date_range :: "int list"
  categories :: "cell list"
  view_type :: string
  forecast_days :: nat
  show_components :: bool

text \<open>What one pass of show_analysis computes and shows.\<close>

record report =
  kpi_summary :: kpis
  daily_sales :: "(cell \<times> real) list"
  category_profit :: "(cell \<times> real) list"
  discount_impact :: "(cell \<times> float64 \<times> float64) list"
  top_products :: "product_row list"
  sales_history :: "(cell \<times> real) list"
  future_data :: "forecast_row list"
  components :: "(int \<times> real \<times> real) list option"
  avg_discount :: float64
  negative_profit :: float64
  best_category :: cell
  raw_data :: dataframe
  csv :: csv_file

text \<open>
  A pass ends in one of three ways: the page is complete, the function returned early
  after showing an error message, or an exception left the function.
\<close>

datatype outcome = Completed report | Stopped | Raised error

text \<open>
  A call into the plotting library: the names \<open>px\<close>, \<open>go\<close> and \<open>make_subplots\<close> are
  bound only when the import went through. The drawing itself is not modelled.
\<close>

definition plotly_call :: "environment \<Rightarrow> error + unit" where
  "plotly_call env = (if PLOTLY_AVAILABLE env then Inr () else Inl NameError)"

text \<open>\<open>df['Order Date'].min().date()\<close> raises when the column has no timestamp at all.\<close>

definition has_order_date :: "dataframe \<Rightarrow> bool" where
  "has_order_date df =
     (case getitem df ''Order Date'' of
        Inl e \<Rightarrow> False
      | Inr s \<Rightarrow> list_ex (\<lambda>c. case c of Date t \<Rightarrow> True | _ \<Rightarrow> False) (cells s))"

text \<open>\<open>.idxmax()\<close> of a grouped sum: the first key with the largest sum, ValueError without keys.\<close>

definition idxmax :: "(cell \<times> real) list \<Rightarrow> error + cell" where
  "idxmax t = (case nlargest 1 t of [] \<Rightarrow> Inl ValueError | (g, v) # rest \<Rightarrow> Inr g)"

text \<open>\<open>sales_data['ds'].max()\<close> and the rows of the forecast after it.\<close>

definition ds_max :: "(cell \<times> real) list \<Rightarrow> int option" where
  "ds_max sales_data =
     (case concat (map (\<lambda>(k, v). case k of Date t \<Rightarrow> [t] | _ \<Rightarrow> []) sales_data) of
        [] \<Rightarrow> None
      | t # ts \<Rightarrow> Some (fold max ts t))"

definition after_history :: "forecast_row list \<Rightarrow> (cell \<times> real) list \<Rightarrow> forecast_row list" where
  "after_history forecast sales_data =
     (case ds_max sales_data of
        None \<Rightarrow> []
      | Some m \<Rightarrow> filter (\<lambda>r. ds r > m) forecast)"

text \<open>The \<open>.str\<close> accessor raises AttributeError on a column that is not an object column.\<close>

definition str_accessor :: "dataframe \<Rightarrow> string \<Rightarrow> error + unit" where
  "str_accessor df col =
     and_then (getitem df col) (\<lambda>s. if dtype s = Object then Inr () else Inl AttributeError)"

text \<open>
  The body of show_analysis after the date conversion and the setup of the date widget,
  in the order of the source. \<open>sales_data['ds']\<close> on the \<open>None\<close> that
  create_sales_forecast returns without the forecasting library is a TypeError.
\<close>

definition analysis :: "environment \<Rightarrow> widgets \<Rightarrow> dataframe \<Rightarrow> error + report" where
  "analysis env ui df =
     and_then (getitem df ''Category'') (\<lambda>options.
     and_then (filter_data df (date_range ui) (categories ui)) (\<lambda>filtered_df.
     and_then (calculate_kpis filtered_df) (\<lambda>k.
     and_then (groupby_sum filtered_df ''Order Date'' ''Sales'') (\<lambda>daily.
     and_then (groupby_sum filtered_df ''Category'' ''Profit'') (\<lambda>by_category.
     and_then (plotly_call env) (\<lambda>fig_category.
     and_then (groupby_mean filtered_df ''Discount'' ''Profit'') (\<lambda>mean_profit.
     and_then (groupby_mean filtered_df ''Discount'' ''Sales'') (\<lambda>mean_sales.
     and_then (plotly_call env) (\<lambda>fig_discount.
     and_then (groupby_sum filtered_df ''Product Name'' ''Profit'') (\<lambda>product_analysis.
     and_then (str_accessor filtered_df ''Product Name'') (\<lambda>names.
     and_then (plotly_call env) (\<lambda>fig_products.
     and_then (create_sales_forecast env filtered_df (forecast_days ui)) (\<lambda>result.
     and_then (plotly_call env) (\<lambda>fig_forecast.
     and_then (case result of None \<Rightarrow> Inl TypeError | Some p \<Rightarrow> Inr p) (\<lambda>(sales_data, forecast).
     and_then (getitem filtered_df ''Discount'') (\<lambda>discount.
     and_then (series_mean discount) (\<lambda>avg.
     and_then (negative_profit_pct filtered_df) (\<lambda>negative_pct.
     and_then (groupby_sum filtered_df ''Category'' ''Profit'') (\<lambda>profit_by_category.
     and_then (idxmax profit_by_category) (\<lambda>best.
     and_then (sort_values_desc filtered_df ''Order Date'') (\<lambda>sorted_df.
       Inr \<lparr>kpi_summary = k,
            daily_sales = daily,
            category_profit = by_category,
            discount_impact = map (\<lambda>((g, p), (h, s)). (g, p, s)) (zip mean_profit mean_sales),
            top_products =
              add_short_name
                (if view_type ui = ''Top 10 Profitable'' then nlargest 10 product_analysis
                 else nsmallest 10 product_analysis),
            sales_history = sales_data,
            future_data = after_history forecast sales_data,
            components =
              (if show_components ui then Some (map (\<lambda>r. (ds r, trend r, yearly r)) forecast)
               else None),
            avg_discount = avg,
            negative_profit = negative_pct,
            best_category = best,
            raw_data = sorted_df,
            csv = to_csv filtered_df\<rparr>)))))))))))))))))))))"

text \<open>
  show_analysis: the table object after the call, and how the pass ended. The two date
  assignments write into the table that the caller passed in.
\<close>

definition show_analysis :: "environment \<Rightarrow> widgets \<Rightarrow> dataframe \<Rightarrow> dataframe \<times> outcome" where
  "show_analysis env ui df =
     (case convert_dates (parse_date env) df of
        (df', converted) \<Rightarrow>
          if \<not> converted then (df', Stopped)
          else if \<not> has_order_date df' then (df', Stopped)
          else (df', case analysis env ui df' of Inl e \<Rightarrow> Raised e | Inr r \<Rightarrow> Completed r))"

section \<open>The properties of the specification\<close>

text \<open>
  The filter predicate in the words of the specification: a row is kept iff the day of
  its order date lies in the range and its category is among the selected ones. A row
  without an order date has no day.
\<close>

definition order_day :: "dataframe \<Rightarrow> cell list \<Rightarrow> int option" where
  "order_day df r =
     (case index_of ''Order Date'' (columns df) of
        None \<Rightarrow> None
      | Some i \<Rightarrow> dt_date_cell (cell_at r i))"

definition category_of :: "dataframe \<Rightarrow> cell list \<Rightarrow> cell" where
  "category_of df r =
     (case index_of ''Category'' (columns df) of
        None \<Rightarrow> Null
      | Some i \<Rightarrow> cell_at r i)"

definition row_is_kept :: "dataframe \<Rightarrow> int \<Rightarrow> int \<Rightarrow> cell list \<Rightarrow> cell list \<Rightarrow> bool" where
  "row_is_kept df start_date end_date cats r =
     ((case order_day df r of None \<Rightarrow> False | Some d \<Rightarrow> start_date \<le> d \<and> d \<le> end_date) \<and>
      category_of df r \<in> set cats)"

text \<open>The same predicate on the positions of the two columns.\<close>

definition keeps :: "nat \<Rightarrow> nat \<Rightarrow> int \<Rightarrow> int \<Rightarrow> cell list \<Rightarrow> cell list \<Rightarrow> bool" where
  "keeps i j lo hi cats r =
     ((case dt_date_cell (cell_at r i) of None \<Rightarrow> False | Some d \<Rightarrow> lo \<le> d \<and> d \<le> hi) \<and>
      cell_at r j \<in> set cats)"

text \<open>
  The totals in the words of the specification: the sum of a column over the rows of the
  table, where a row without a number in the column adds nothing. In the data model a
  sales amount is a non-negative real.
\<close>

definition row_amount :: "dataframe \<Rightarrow> string \<Rightarrow> cell list \<Rightarrow> real" where
  "row_amount df col r =
     (case index_of col (columns df) of
        None \<Rightarrow> 0
      | Some i \<Rightarrow> (case cell_at r i of Num x \<Rightarrow> x | _ \<Rightarrow> 0))"

definition column_total :: "dataframe \<Rightarrow> string \<Rightarrow> real" where
  "column_total df col = sum_list (map (row_amount df col) (rows df))"

definition non_negative_sales :: "dataframe \<Rightarrow> bool" where
  "non_negative_sales df = list_all (\<lambda>r. 0 \<le> row_amount df ''Sales'' r) (rows df)"

text \<open>A column that holds numbers and missing values only; a column of a numeric dtype.\<close>

definition numeric_column :: "dataframe \<Rightarrow> string \<Rightarrow> bool" where
  "numeric_column df col =
     (case getitem df col of
        Inl e \<Rightarrow> False
      | Inr s \<Rightarrow> list_all (\<lambda>c. case c of Num x \<Rightarrow> True | Null \<Rightarrow> True | _ \<Rightarrow> False) (cells s))"

definition has_numeric_dtype :: "dataframe \<Rightarrow> string \<Rightarrow> bool" where
  "has_numeric_dtype df col =
     (case getitem df col of Inl e \<Rightarrow> False | Inr s \<Rightarrow> is_numeric_dtype (dtype s))"

text \<open>
  The Dataset of the specification is the table after validation and date conversion:
  both date columns are datetime columns of timestamps and missing values.
\<close>

definition datetime_series :: "series \<Rightarrow> bool" where
  "datetime_series s =
     (dtype s = Datetime64 \<and>
      list_all (\<lambda>c. case c of Date t \<Rightarrow> True | Null \<Rightarrow> True | _ \<Rightarrow> False) (cells s))"

definition normalized :: "dataframe \<Rightarrow> bool" where
  "normalized df =
     ((case getitem df ''Order Date'' of Inl e \<Rightarrow> False | Inr s \<Rightarrow> datetime_series s) \<and>
      (case getitem df ''Ship Date'' of Inl e \<Rightarrow> False | Inr s \<Rightarrow> datetime_series s))"

text \<open>The records of a CSV export are in descending order of the order date.\<close>

definition sorted_by_order_date_desc :: "csv_file \<Rightarrow> bool" where
  "sorted_by_order_date_desc c =
     (case index_of ''Order Date'' (header c) of
        None \<Rightarrow> False
      | Some i \<Rightarrow> sorted_wrt (date_desc i) (records c))"

section \<open>Example tables\<close>

text \<open>
  The sample of the upload page, after date conversion: three orders on 2023-01-01,
  2023-01-02 and 2023-01-03 (days 19358 to 19360 after the epoch).
\<close>

definition sample_table :: dataframe where
  "sample_table =
     \<lparr>cols = [(''Order Date'', Datetime64), (''Ship Date'', Datetime64), (''Category'', Object),
              (''Sub-Category'', Object), (''Product Name'', Object), (''Sales'', Float64),
              (''Discount'', Float64), (''Profit'', Float64), (''Quantity'', Int64)],
      rows = [[Date 1672531200000000000, Date 1672617600000000000, Str ''Technology'',
               Str ''Phones'', Str ''iPhone 14'', Num (99999 / 100), Num (1 / 10),
               Num (19999 / 100), Num 1],
              [Date 1672617600000000000, Date 1672704000000000000, Str ''Furniture'',
               Str ''Chairs'', Str ''Office Chair'', Num (29999 / 100), Num 0,
               Num (5999 / 100), Num 1],
              [Date 1672704000000000000, Date 1672790400000000000, Str ''Office Supplies'',
               Str ''Binders'', Str ''Binder Clips'', Num (1599 / 100), Num (1 / 20),
               Num (319 / 100), Num 5]]\<rparr>"

text \<open>The same columns without rows, as a filter that selects nothing leaves them.\<close>

definition no_rows_table :: dataframe where
  "no_rows_table =
     \<lparr>cols = [(''Order Date'', Datetime64), (''Ship Date'', Datetime64), (''Category'', Object),
              (''Sub-Category'', Object), (''Product Name'', Object), (''Sales'', Float64),
              (''Discount'', Float64), (''Profit'', Float64), (''Quantity'', Int64)],
      rows = []\<rparr>"

text \<open>A sheet that has the nine headers and no rows: every column has the object dtype.\<close>

definition headers_only_table :: dataframe where
  "headers_only_table =
     \<lparr>cols = [(''Order Date'', Object), (''Ship Date'', Object), (''Category'', Object),
              (''Sub-Category'', Object), (''Product Name'', Object), (''Sales'', Object),
              (''Discount'', Object), (''Profit'', Object), (''Quantity'', Object)],
      rows = []\<rparr>"

text \<open>One order with a negative sales amount (a refund).\<close>

definition refund_table :: dataframe where
  "refund_table =
     \<lparr>cols = [(''Sales'', Float64), (''Profit'', Float64)],
      rows = [[Num (- 100), Num (- 20)]]\<rparr>"

text \<open>A date parser that rejects everything, for tables that need none.\<close>

definition no_parse :: "cell \<Rightarrow> int option" where
  "no_parse c = None"

text \<open>
  A stand-in for the forecasting library: like the library it refuses a history of fewer
  than two days; its forecast table has no rows.
\<close>

definition stub_prophet :: "(cell \<times> real) list \<Rightarrow> nat \<Rightarrow> error + forecast_row list" where
  "stub_prophet sales_data periods = (if length sales_data < 2 then Inl ValueError else Inr [])"

definition sample_env :: environment where
  "sample_env =
     \<lparr>PLOTLY_AVAILABLE = True, PROPHET_AVAILABLE = True, parse_date = no_parse,
      prophet = stub_prophet\<rparr>"

definition env_without_prophet :: environment where
  "env_without_prophet =
     \<lparr>PLOTLY_AVAILABLE = True, PROPHET_AVAILABLE = False, parse_date = no_parse,
      prophet = stub_prophet\<rparr>"

text \<open>The widgets as the page sets them at first: the whole date range, every category.\<close>

definition sample_widgets :: widgets where
  "sample_widgets =
     \<lparr>date_range = [19358, 19360],
      categories = [Str ''Technology'', Str ''Furniture'', Str ''Office Supplies''],
      view_type = ''Top 10 Profitable'', forecast_days = 90, show_components = False\<rparr>"

text \<open>The widgets after the user has cleared the category selection.\<close>

definition no_category_widgets :: widgets where
  "no_category_widgets =
     \<lparr>date_range = [19358, 19360], categories = [],
      view_type = ''Top 10 Profitable'', forecast_days = 90, show_components = False\<rparr>"

text \<open>
  An uploaded table before the date conversion, with its dates as text, and a parser that
  reads the two dates it holds.
\<close>

definition raw_table :: dataframe where
  "raw_table =
     \<lparr>cols = [(''Order Date'', Object), (''Ship Date'', Object), (''Category'', Object),
              (''Sub-Category'', Object), (''Product Name'', Object), (''Sales'', Float64),
              (''Discount'', Float64), (''Profit'', Float64), (''Quantity'', Int64)],
      rows = [[Str ''2023-01-01'', Str ''2023-01-02'', Str ''Technology'',
               Str ''Phones'', Str ''iPhone 14'', Num (99999 / 100), Num (1 / 10),
               Num (19999 / 100), Num 1]]\<rparr>"

definition sample_parse :: "cell \<Rightarrow> int option" where
  "sample_parse c =
     (if c = Str ''2023-01-01'' then Some 1672531200000000000
      else if c = Str ''2023-01-02'' then Some 1672617600000000000
      else None)"

definition upload_env :: environment where
  "upload_env =
     \<lparr>PLOTLY_AVAILABLE = True, PROPHET_AVAILABLE = True, parse_date = sample_parse,
      prophet = stub_prophet\<rparr>"

text \<open>What the pass over the sample computes with these widgets and the stand-in forecaster.\<close>

definition sample_report :: report where
  "sample_report =
     \<lparr>kpi_summary =
        \<lparr>total_sales = 131597 / 100, total_profit = 26317 / 100,
         profit_margin = 2631700 / 131597,
         avg_order_value = Finite (131597 / 300), total_orders = 3\<rparr>,
      daily_sales =
        [(Date 1672531200000000000, 99999 / 100),
         (Date 1672617600000000000, 29999 / 100),
         (Date 1672704000000000000, 1599 / 100)],
      category_profit =
        [(Str ''Furniture'', 5999 / 100),
         (Str ''Office Supplies'', 319 / 100),
         (Str ''Technology'', 19999 / 100)],
      discount_impact =
        [(Num 0, Finite (5999 / 100), Finite (29999 / 100)),
         (Num (1 / 20), Finite (319 / 100), Finite (1599 / 100)),
         (Num (1 / 10), Finite (19999 / 100), Finite (99999 / 100))],
      top_products =
        [\<lparr>product_name = Str ''iPhone 14'', profit = 19999 / 100,
          short_name_col = Str ''iPhone 14...''\<rparr>,
         \<lparr>product_name = Str ''Office Chair'', profit = 5999 / 100,
          short_name_col = Str ''Office Chair...''\<rparr>,
         \<lparr>product_name = Str ''Binder Clips'', profit = 319 / 100,
          short_name_col = Str ''Binder Clips...''\<rparr>],
      sales_history =
        [(Date 1672531200000000000, 99999 / 100),
         (Date 1672617600000000000, 29999 / 100),
         (Date 1672704000000000000, 1599 / 100)],
      future_data = [],
      components = None,
      avg_discount = Finite (1 / 20),
      negative_profit = Finite 0,
      best_category = Str ''Technology'',
      raw_data = sample_table\<lparr>rows := rev (rows sample_table)\<rparr>,
      csv = \<lparr>header = REQUIRED_COLUMNS, records = rows sample_table\<rparr>\<rparr>"

section \<open>Basic facts\<close>

lemma and_then_Inr [simp]: "and_then (Inr x) f = f x"
  by (simp add: and_then_def)

lemma and_then_Inl [simp]: "and_then (Inl e) f = Inl e"
  by (simp add: and_then_def)

lemma and_then_eq_Inr: "and_then r f = Inr y \<longleftrightarrow> (\<exists>x. r = Inr x \<and> f x = Inr y)"
  by (cases r) simp_all

lemma index_of_None_iff: "index_of x xs = None \<longleftrightarrow> x \<notin> set xs"
  by (induction xs) auto

lemma index_of_Some_less: "index_of x xs = Some i \<Longrightarrow> i < length xs \<and> xs ! i = x"
  by (induction xs arbitrary: i) (auto split: if_splits)

lemma index_of_mem: "x \<in> set xs \<Longrightarrow> \<exists>i. index_of x xs = Some i"
  using index_of_None_iff [of x xs] by (cases "index_of x xs") auto

lemma getitem_mem:
  assumes "col \<in> set (columns df)"
  shows "\<exists>s. getitem df col = Inr s \<and> length (cells s) = length (rows df)"
  using index_of_mem [OF assms] by (auto simp: getitem_def)

section \<open>calculate_kpis: the profit margin\<close>

lemma numeric_values_total:
  assumes "list_all (\<lambda>c. case c of Num x \<Rightarrow> True | Null \<Rightarrow> True | _ \<Rightarrow> False) cs"
  shows "\<exists>xs. numeric_values cs = Inr xs"
  using assms
proof (induction cs)
  case Nil
  then show ?case by simp
next
  case (Cons c cs)
  then show ?case by (cases c) auto
qed

lemma numeric_values_only:
  assumes "numeric_values cs = Inr xs"
  shows "list_all (\<lambda>c. case c of Num x \<Rightarrow> True | Null \<Rightarrow> True | _ \<Rightarrow> False) cs"
  using assms
proof (induction cs arbitrary: xs)
  case Nil
  then show ?case by simp
next
  case (Cons c cs)
  then show ?case by (cases c) (auto simp: and_then_eq_Inr)
qed

lemma series_sum_total:
  assumes "numeric_column df col"
  shows "\<exists>s x m. getitem df col = Inr s \<and> series_sum s = Inr x \<and> series_mean s = Inr m"
proof -
  from assms obtain s where s: "getitem df col = Inr s"
    and a: "list_all (\<lambda>c. case c of Num x \<Rightarrow> True | Null \<Rightarrow> True | _ \<Rightarrow> False) (cells s)"
    by (auto simp: numeric_column_def split: sum.splits)
  from numeric_values_total [OF a] obtain xs where "numeric_values (cells s) = Inr xs"
    by blast
  with s show ?thesis
    by (simp add: series_sum_def series_mean_def)
qed

lemma series_sum_numeric:
  assumes "getitem df col = Inr s" and "series_sum s = Inr x"
  shows "numeric_column df col"
  using assms numeric_values_only [of "cells s"]
  by (auto simp: numeric_column_def series_sum_def and_then_eq_Inr)

lemma calculate_kpis_returns:
  "(\<exists>k. calculate_kpis df = Inr k) \<longleftrightarrow>
     numeric_column df ''Sales'' \<and> numeric_column df ''Profit''"
proof
  assume "\<exists>k. calculate_kpis df = Inr k"
  then obtain k s x p y where "getitem df ''Sales'' = Inr s" "series_sum s = Inr x"
    "getitem df ''Profit'' = Inr p" "series_sum p = Inr y"
    by (auto simp: calculate_kpis_def and_then_eq_Inr)
  then show "numeric_column df ''Sales'' \<and> numeric_column df ''Profit''"
    using series_sum_numeric by blast
next
  assume a: "numeric_column df ''Sales'' \<and> numeric_column df ''Profit''"
  obtain s x m where s: "getitem df ''Sales'' = Inr s" "series_sum s = Inr x" "series_mean s = Inr m"
    using series_sum_total [of df "''Sales''"] a by blast
  obtain p y n where p: "getitem df ''Profit'' = Inr p" "series_sum p = Inr y" "series_mean p = Inr n"
    using series_sum_total [of df "''Profit''"] a by blast
  show "\<exists>k. calculate_kpis df = Inr k"
    using s p by (simp add: calculate_kpis_def)
qed

lemma numeric_values_sum:
  assumes "numeric_values (map (\<lambda>r. cell_at r i) xs) = Inr vs"
  shows "sum_list vs = sum_list (map (\<lambda>r. case cell_at r i of Num x \<Rightarrow> x | _ \<Rightarrow> 0) xs)"
  using assms
proof (induction xs arbitrary: vs)
  case Nil
  then show ?case by simp
next
  case (Cons r xs)
  then show ?case
    by (cases "cell_at r i") (auto simp: and_then_eq_Inr)
qed

lemma series_sum_column_total:
  assumes "getitem df col = Inr s" and "series_sum s = Inr x"
  shows "x = column_total df col"
proof -
  from assms(1) obtain i where i: "index_of col (columns df) = Some i"
    and s: "cells s = map (\<lambda>r. cell_at r i) (rows df)"
    by (auto simp: getitem_def split: option.splits)
  from assms(2) s obtain vs where vs: "numeric_values (map (\<lambda>r. cell_at r i) (rows df)) = Inr vs"
    and x: "x = sum_list vs"
    by (auto simp: series_sum_def and_then_eq_Inr)
  have "row_amount df col = (\<lambda>r. case cell_at r i of Num x \<Rightarrow> x | _ \<Rightarrow> 0)"
    by (rule ext) (simp add: row_amount_def i)
  with numeric_values_sum [OF vs] x show ?thesis
    by (simp add: column_total_def)
qed

lemma calculate_kpis_fields:
  assumes "calculate_kpis df = Inr k"
  shows "total_sales k = column_total df ''Sales'' \<and>
         total_profit k = column_total df ''Profit'' \<and>
         profit_margin k =
           (if total_sales k > 0 then total_profit k / total_sales k * 100 else 0)"
proof -
  from assms obtain s x p y where s: "getitem df ''Sales'' = Inr s" "series_sum s = Inr x"
    and p: "getitem df ''Profit'' = Inr p" "series_sum p = Inr y"
    and k: "total_sales k = x" "total_profit k = y"
      "profit_margin k = (if x > 0 then y / x * 100 else 0)"
    by (auto simp: calculate_kpis_def and_then_eq_Inr)
  from series_sum_column_total [OF s] series_sum_column_total [OF p] k show ?thesis
    by simp
qed

lemma column_total_nonneg:
  assumes "non_negative_sales df"
  shows "0 \<le> column_total df ''Sales''"
  using assms unfolding non_negative_sales_def column_total_def
  by (intro sum_list_nonneg) (auto simp: list_all_iff)

text \<open>
  C1. A table of the data model has no negative sales amount. Whenever calculate_kpis
  returns a summary for such a table, the total of the sales in it is the sum of the
  Sales column over the rows and the total of the profit the sum of the Profit column,
  and the profit margin is total profit over total sales times 100 when the total of
  the sales is not zero, and 0 when it is zero, whatever the profit. calculate_kpis
  returns a summary exactly for the tables whose Sales and Profit columns hold numbers
  (lemma \<open>calculate_kpis_returns\<close>).
\<close>

theorem kpis_profit_margin:
  assumes "calculate_kpis df = Inr k" and "non_negative_sales df"
  shows "total_sales k = column_total df ''Sales'' \<and>
         total_profit k = column_total df ''Profit'' \<and>
         (total_sales k \<noteq> 0 \<longrightarrow> profit_margin k = total_profit k / total_sales k * 100) \<and>
         (total_sales k = 0 \<longrightarrow> profit_margin k = 0)"
proof -
  from calculate_kpis_fields [OF assms(1)]
  have f: "total_sales k = column_total df ''Sales''"
    "total_profit k = column_total df ''Profit''"
    "profit_margin k = (if total_sales k > 0 then total_profit k / total_sales k * 100 else 0)"
    by simp_all
  from column_total_nonneg [OF assms(2)] f(1) have "0 \<le> total_sales k"
    by simp
  with f show ?thesis
    by auto
qed

theorem kpis_profit_margin_witness:
  "calculate_kpis sample_table =
     Inr \<lparr>total_sales = 131597 / 100, total_profit = 26317 / 100,
          profit_margin = 2631700 / 131597,
          avg_order_value = Finite (131597 / 300), total_orders = 3\<rparr> \<and>
   non_negative_sales sample_table \<and>
   column_total sample_table ''Sales'' = 131597 / 100 \<and>
   column_total sample_table ''Profit'' = 26317 / 100 \<and>
   (2631700 / 131597 :: real) = 26317 / 100 / (131597 / 100) * 100"
proof -
  have v: "calculate_kpis sample_table =
     Inr \<lparr>total_sales = 131597 / 100, total_profit = 26317 / 100,
          profit_margin = 2631700 / 131597,
          avg_order_value = Finite (131597 / 300), total_orders = 3\<rparr>"
    by code_simp
  have h: "non_negative_sales sample_table"
    by code_simp
  from kpis_profit_margin [OF v h] v h show ?thesis
    by simp
qed

text \<open>
  The guard of the code is \<open>total_sales > 0\<close>. On a table without rows the total is zero
  and the margin is 0; on a negative total, which the data model excludes, the margin is
  0 as well.
\<close>

lemma kpis_guard_on_zero_total:
  "calculate_kpis no_rows_table =
     Inr \<lparr>total_sales = 0, total_profit = 0, profit_margin = 0, avg_order_value = NaN,
          total_orders = 0\<rparr>"
  by code_simp

lemma kpis_guard_on_negative_total:
  "calculate_kpis refund_table =
     Inr \<lparr>total_sales = - 100, total_profit = - 20, profit_margin = 0,
          avg_order_value = Finite (- 100), total_orders = 1\<rparr>"
  by code_simp

section \<open>validate_dataset\<close>

text \<open>
  C2. On every table that lacks at least one required column, validate_dataset returns
  false with the message that lists the required columns the table lacks, in the order
  of REQUIRED_COLUMNS, joined by a comma and a space.
\<close>

theorem validate_names_missing_columns:
  assumes "\<not> set REQUIRED_COLUMNS \<subseteq> set (columns df)"
  shows "validate_dataset parse df =
           Inr (False, ''Missing required columns: '' @
                       join '', '' (filter (\<lambda>col. col \<notin> set (columns df)) REQUIRED_COLUMNS))"
proof -
  from assms obtain c where "c \<in> set REQUIRED_COLUMNS" "c \<notin> set (columns df)"
    by blast
  then have "filter (\<lambda>col. col \<notin> set (columns df)) REQUIRED_COLUMNS \<noteq> []"
    by (auto simp: filter_empty_conv)
  then show ?thesis
    by (simp add: validate_dataset_def Let_def)
qed

theorem validate_names_missing_columns_witness:
  "\<not> set REQUIRED_COLUMNS \<subseteq> set (columns refund_table) \<and>
   validate_dataset no_parse refund_table =
     Inr (False, ''Missing required columns: Order Date, Ship Date, Category, Sub-Category, Product Name, Discount, Quantity'')"
proof -
  have h: "\<not> set REQUIRED_COLUMNS \<subseteq> set (columns refund_table)"
    by (simp add: REQUIRED_COLUMNS_def columns_def refund_table_def)
  show ?thesis
    using h validate_names_missing_columns [OF h, of no_parse]
    by (simp add: REQUIRED_COLUMNS_def columns_def refund_table_def)
qed

lemma to_datetime_no_rows: "cells s = [] \<Longrightarrow> to_datetime parse s \<noteq> None"
  by (simp add: to_datetime_def)

lemma dates_convert_no_rows:
  assumes "rows df = []" "''Order Date'' \<in> set (columns df)" "''Ship Date'' \<in> set (columns df)"
  shows "dates_convert parse df"
proof -
  obtain s where s: "getitem df ''Order Date'' = Inr s" "length (cells s) = length (rows df)"
    using getitem_mem [OF assms(2)] by blast
  obtain t where t: "getitem df ''Ship Date'' = Inr t" "length (cells t) = length (rows df)"
    using getitem_mem [OF assms(3)] by blast
  from s t assms(1) show ?thesis
    by (simp add: dates_convert_def to_datetime_no_rows)
qed

lemma first_non_numeric_None:
  assumes "set cs \<subseteq> set (columns df)"
  shows "first_non_numeric df cs = Inr None \<longleftrightarrow> (\<forall>c \<in> set cs. has_numeric_dtype df c)"
  using assms
proof (induction cs)
  case Nil
  then show ?case by simp
next
  case (Cons c cs)
  then obtain s where "getitem df c = Inr s"
    using getitem_mem [of c df] by auto
  with Cons show ?case
    by (auto simp: has_numeric_dtype_def)
qed

lemma first_non_numeric_total:
  assumes "set cs \<subseteq> set (columns df)"
  shows "\<exists>r. first_non_numeric df cs = Inr r"
  using assms
proof (induction cs)
  case Nil
  then show ?case by simp
next
  case (Cons c cs)
  then obtain s where "getitem df c = Inr s"
    using getitem_mem [of c df] by auto
  with Cons show ?case
    by auto
qed

text \<open>
  C5, as the code has it. On a table with the nine required columns and no rows the date
  check passes, and validate_dataset returns true exactly when the four numeric columns
  have a numeric dtype: the numeric check reads the dtype of the column, which a table
  without rows still has.
\<close>

theorem validate_empty_table:
  assumes "rows df = []" and "set REQUIRED_COLUMNS \<subseteq> set (columns df)"
  shows "(validate_dataset parse df = Inr (True, ''Dataset validation successful'')) =
           (has_numeric_dtype df ''Sales'' \<and> has_numeric_dtype df ''Discount'' \<and>
            has_numeric_dtype df ''Profit'' \<and> has_numeric_dtype df ''Quantity'')
         \<and> validate_dataset parse df \<noteq>
             Inr (False, ''Order Date and Ship Date must be valid date formats'')"
proof -
  have nomiss: "filter (\<lambda>col. col \<notin> set (columns df)) REQUIRED_COLUMNS = []"
    using assms(2) by (auto simp: filter_empty_conv)
  have dates: "dates_convert parse df"
    using assms by (intro dates_convert_no_rows) (auto simp: REQUIRED_COLUMNS_def)
  have sub: "set numeric_columns \<subseteq> set (columns df)"
    using assms(2) by (auto simp: REQUIRED_COLUMNS_def numeric_columns_def)
  obtain r where r: "first_non_numeric df numeric_columns = Inr r"
    using first_non_numeric_total [OF sub] by blast
  have v: "validate_dataset parse df =
             (case r of
                Some col \<Rightarrow>
                  Inr (False, ''Column '' @ [CHR 0x27] @ col @ [CHR 0x27] @ '' must contain numeric values'')
              | None \<Rightarrow> Inr (True, ''Dataset validation successful''))"
    using nomiss dates r by (cases r) (simp_all add: validate_dataset_def)
  have "r = None \<longleftrightarrow> (\<forall>c \<in> set numeric_columns. has_numeric_dtype df c)"
    using first_non_numeric_None [OF sub] r by simp
  then have "r = None \<longleftrightarrow>
      (has_numeric_dtype df ''Sales'' \<and> has_numeric_dtype df ''Discount'' \<and>
       has_numeric_dtype df ''Profit'' \<and> has_numeric_dtype df ''Quantity'')"
    by (simp add: numeric_columns_def)
  with v show ?thesis
    by (cases r) auto
qed

theorem validate_empty_table_witness:
  "rows no_rows_table = [] \<and> set REQUIRED_COLUMNS \<subseteq> set (columns no_rows_table) \<and>
   validate_dataset no_parse no_rows_table = Inr (True, ''Dataset validation successful'')"
proof -
  have h1: "rows no_rows_table = []"
    by (simp add: no_rows_table_def)
  have h2: "set REQUIRED_COLUMNS \<subseteq> set (columns no_rows_table)"
    by (simp add: REQUIRED_COLUMNS_def columns_def no_rows_table_def)
  have n: "has_numeric_dtype no_rows_table ''Sales'' \<and> has_numeric_dtype no_rows_table ''Discount'' \<and>
           has_numeric_dtype no_rows_table ''Profit'' \<and> has_numeric_dtype no_rows_table ''Quantity''"
    by (simp add: has_numeric_dtype_def getitem_def columns_def no_rows_table_def)
  from validate_empty_table [OF h1 h2, of no_parse] n h1 h2 show ?thesis
    by simp
qed

text \<open>
  C5 as stated fails on the table of a sheet with the nine headers and no rows, whose
  columns have the object dtype: validate_dataset returns false and names Sales.
\<close>

theorem validate_headers_only_counterexample:
  "validate_dataset no_parse headers_only_table =
     Inr (False, ''Column '' @ [CHR 0x27] @ ''Sales'' @ [CHR 0x27] @ '' must contain numeric values'')"
  by (simp add: validate_dataset_def headers_only_table_def REQUIRED_COLUMNS_def columns_def
      dates_convert_def getitem_def to_datetime_def numeric_columns_def)

section \<open>The filter\<close>

lemma mask_and_map: "mask_and (map P xs) (map Q xs) = map (\<lambda>x. P x \<and> Q x) xs"
  by (induction xs) (simp_all add: mask_and_def)

lemma select_by_mask: "map fst (filter snd (zip xs (map P xs))) = filter P xs"
  by (induction xs) simp_all

lemma filter_data_unfold:
  "filter_data df [lo, hi] cats =
     (case index_of ''Order Date'' (columns df) of
        None \<Rightarrow> Inl KeyError
      | Some i \<Rightarrow>
          if snd (cols df ! i) \<noteq> Datetime64 then Inl AttributeError
          else (case index_of ''Category'' (columns df) of
                  None \<Rightarrow> Inl KeyError
                | Some j \<Rightarrow> Inr (df\<lparr>rows := filter (keeps i j lo hi cats) (rows df)\<rparr>)))"
proof -
  have m: "mask_and (mask_and (ge_date (map dt_date_cell (map (\<lambda>r. cell_at r i) xs)) lo)
                              (le_date (map dt_date_cell (map (\<lambda>r. cell_at r i) xs)) hi))
                    (isin \<lparr>dtype = d, cells = map (\<lambda>r. cell_at r j) xs\<rparr> cats)
           = map (keeps i j lo hi cats) xs" for i j xs d
    by (induction xs) (auto simp: mask_and_def ge_date_def le_date_def isin_def keeps_def split: option.splits)
  show ?thesis
    by (auto simp: filter_data_def getitem_def dt_date_def tuple_get_def boolean_index_def m
        select_by_mask simp del: map_map split: option.splits)
qed

text \<open>
  C3. On a table with a datetime Order Date column and a Category column, the filter
  with the range from \<open>lo\<close> to \<open>hi\<close> and the categories \<open>cats\<close> returns the table
  with the rows that the predicate of the specification keeps, in their order; so a row
  is in the result iff it is a row of the table, the day of its order date is in the
  range and its category is selected.
\<close>

theorem filter_keeps_matching_rows:
  assumes "getitem df ''Order Date'' = Inr od" and "dtype od = Datetime64"
    and "''Category'' \<in> set (columns df)"
  shows "filter_data df [lo, hi] cats =
           Inr (df\<lparr>rows := filter (row_is_kept df lo hi cats) (rows df)\<rparr>)
         \<and> (r \<in> set (filter (row_is_kept df lo hi cats) (rows df)) \<longleftrightarrow>
              r \<in> set (rows df) \<and>
              (case order_day df r of None \<Rightarrow> False | Some d \<Rightarrow> lo \<le> d \<and> d \<le> hi) \<and>
              category_of df r \<in> set cats)"
proof -
  from assms(1) obtain i where i: "index_of ''Order Date'' (columns df) = Some i"
    by (auto simp: getitem_def split: option.splits)
  with assms(1,2) have dt: "snd (cols df ! i) = Datetime64"
    by (auto simp: getitem_def)
  obtain j where j: "index_of ''Category'' (columns df) = Some j"
    using index_of_mem [OF assms(3)] by blast
  have "keeps i j lo hi cats = row_is_kept df lo hi cats"
    by (rule ext) (simp add: keeps_def row_is_kept_def order_day_def category_of_def i j)
  then show ?thesis
    using i j dt by (auto simp: filter_data_unfold row_is_kept_def)
qed

theorem filter_keeps_matching_rows_witness:
  "getitem sample_table ''Order Date'' =
     Inr \<lparr>dtype = Datetime64,
          cells = [Date 1672531200000000000, Date 1672617600000000000, Date 1672704000000000000]\<rparr> \<and>
   ''Category'' \<in> set (columns sample_table) \<and>
   filter_data sample_table [19359, 19360] [Str ''Technology'', Str ''Furniture''] =
     Inr (sample_table\<lparr>rows := [rows sample_table ! 1]\<rparr>)"
proof -
  have h1: "getitem sample_table ''Order Date'' =
     Inr \<lparr>dtype = Datetime64,
          cells = [Date 1672531200000000000, Date 1672617600000000000, Date 1672704000000000000]\<rparr>"
    by code_simp
  have h2: "dtype \<lparr>dtype = Datetime64,
          cells = [Date 1672531200000000000, Date 1672617600000000000, Date 1672704000000000000]\<rparr> = Datetime64"
    by simp
  have h3: "''Category'' \<in> set (columns sample_table)"
    by code_simp
  have f: "filter (row_is_kept sample_table 19359 19360 [Str ''Technology'', Str ''Furniture''])
             (rows sample_table) = [rows sample_table ! 1]"
    by code_simp
  from filter_keeps_matching_rows [OF h1 h2 h3, of 19359 19360 "[Str ''Technology'', Str ''Furniture'']"]
    h1 h3 f show ?thesis by simp
qed

text \<open>
  C4. With the same categories, the filter with a range from \<open>s1\<close> to \<open>e1\<close> followed
  by the filter with a range from \<open>s2\<close> to \<open>e2\<close> inside the first gives what one filter
  with the intersection of the two ranges gives, which is the second range. An error of
  the first filter is the error of the single one.
\<close>

theorem filter_twice_is_filter_once:
  assumes "s1 \<le> s2" and "e2 \<le> e1"
  shows "and_then (filter_data df [s1, e1] cats) (\<lambda>d. filter_data d [s2, e2] cats) =
           filter_data df [max s1 s2, min e1 e2] cats
         \<and> filter_data df [max s1 s2, min e1 e2] cats = filter_data df [s2, e2] cats"
proof -
  have mm: "max s1 s2 = s2" "min e1 e2 = e2"
    using assms by simp_all
  have k: "(keeps i j s1 e1 cats r \<and> keeps i j s2 e2 cats r) = keeps i j s2 e2 cats r" for i j r
    using assms by (auto simp: keeps_def split: option.splits)
  have c: "columns (df\<lparr>rows := xs\<rparr>) = columns df" for xs
    by (simp add: columns_def)
  show ?thesis
    unfolding mm
    by (auto simp: filter_data_unfold c k split: option.splits)
qed

theorem filter_twice_is_filter_once_witness:
  "(19358 :: int) \<le> 19359 \<and> (19359 :: int) \<le> 19360 \<and>
   and_then (filter_data sample_table [19358, 19360] [Str ''Technology'', Str ''Furniture''])
     (\<lambda>d. filter_data d [19359, 19359] [Str ''Technology'', Str ''Furniture'']) =
     Inr (sample_table\<lparr>rows := [rows sample_table ! 1]\<rparr>)"
proof -
  have h1: "(19358 :: int) \<le> 19359" by simp
  have h2: "(19359 :: int) \<le> 19360" by simp
  have v: "filter_data sample_table [19359, 19359] [Str ''Technology'', Str ''Furniture''] =
             Inr (sample_table\<lparr>rows := [rows sample_table ! 1]\<rparr>)"
    by code_simp
  from filter_twice_is_filter_once [OF h1 h2, of sample_table "[Str ''Technology'', Str ''Furniture'']"] v
  show ?thesis by simp
qed

section \<open>The forecast panel\<close>

lemma analysis_needs_prophet:
  assumes "\<not> PROPHET_AVAILABLE env"
  shows "analysis env ui df \<noteq> Inr rep"
  using assms
  by (auto simp: analysis_def and_then_eq_Inr create_sales_forecast_def split: prod.splits)

lemma analysis_needs_forecast:
  assumes "analysis env ui df = Inr rep"
  shows "PROPHET_AVAILABLE env \<and> (\<exists>sales_data forecast. prophet env sales_data (forecast_days ui) = Inr forecast)"
  using assms
  by (auto simp: analysis_def and_then_eq_Inr create_sales_forecast_def split: prod.splits if_splits)

lemma show_analysis_needs_prophet:
  assumes "\<not> PROPHET_AVAILABLE env"
  shows "snd (show_analysis env ui df) \<noteq> Completed rep"
  using analysis_needs_prophet [OF assms]
  by (auto simp: show_analysis_def split: prod.splits sum.splits)

text \<open>
  C6 does not hold of the code. Without the forecasting library create_sales_forecast
  shows its message and returns \<open>(None, None)\<close>; show_analysis then subscripts the
  \<open>None\<close>, and the TypeError leaves the function before the insights and the export:
  on the sample the pass ends with the exception.
\<close>

theorem show_analysis_without_prophet_raises:
  "show_analysis env_without_prophet sample_widgets sample_table = (sample_table, Raised TypeError)"
  by code_simp

section \<open>The export\<close>

lemma sample_run:
  "show_analysis sample_env sample_widgets sample_table = (sample_table, Completed sample_report)"
  by code_simp

lemma filter_data_unfold_range:
  "filter_data df (lo # hi # rest) cats = filter_data df [lo, hi] cats"
  by (simp add: filter_data_def tuple_get_def)

lemma filter_data_range:
  assumes "filter_data df dr cats = Inr fd"
  shows "\<exists>lo hi rest. dr = lo # hi # rest"
proof (cases dr)
  case Nil
  with assms show ?thesis
    by (auto simp: filter_data_def tuple_get_def and_then_eq_Inr)
next
  case (Cons lo tl)
  show ?thesis
  proof (cases tl)
    case Nil
    with Cons assms show ?thesis
      by (auto simp: filter_data_def tuple_get_def and_then_eq_Inr)
  next
    case (Cons hi rest)
    with \<open>dr = lo # tl\<close> show ?thesis by simp
  qed
qed

lemma filter_data_result:
  assumes "filter_data df [lo, hi] cats = Inr fd"
  shows "fd = df\<lparr>rows := filter (row_is_kept df lo hi cats) (rows df)\<rparr>"
proof -
  from assms obtain i where i: "index_of ''Order Date'' (columns df) = Some i"
    by (auto simp: filter_data_unfold split: option.splits)
  from assms i obtain j where j: "index_of ''Category'' (columns df) = Some j"
    by (auto simp: filter_data_unfold split: option.splits if_splits)
  have "keeps i j lo hi cats = row_is_kept df lo hi cats"
    by (rule ext) (simp add: keeps_def row_is_kept_def order_day_def category_of_def i j)
  with assms i j show ?thesis
    by (auto simp: filter_data_unfold split: if_splits)
qed

lemma analysis_csv:
  assumes "analysis env ui df = Inr rep"
  shows "\<exists>fd. filter_data df (date_range ui) (categories ui) = Inr fd \<and> csv rep = to_csv fd"
  using assms by (auto simp: analysis_def and_then_eq_Inr split: prod.splits)

text \<open>
  C7, as the code has it. When a pass of show_analysis completes, the CSV export has the
  column names of the table as its header and one record per row that the filter keeps,
  in the order of the table; the export is written from the filtered table, not from the
  table sorted by order date that the page shows. \<open>df'\<close> is the table after the date
  conversion at the head of show_analysis.
\<close>

theorem csv_export_rows:
  assumes "show_analysis env ui df = (df', Completed rep)"
  shows "\<exists>lo hi rest. date_range ui = lo # hi # rest \<and>
           header (csv rep) = columns df' \<and>
           records (csv rep) = filter (row_is_kept df' lo hi (categories ui)) (rows df')"
proof -
  from assms have a: "analysis env ui df' = Inr rep"
    by (auto simp: show_analysis_def split: prod.splits if_splits sum.splits)
  from analysis_csv [OF a] obtain fd
    where fd: "filter_data df' (date_range ui) (categories ui) = Inr fd" and c: "csv rep = to_csv fd"
    by blast
  from filter_data_range [OF fd] obtain lo hi rest where dr: "date_range ui = lo # hi # rest"
    by blast
  from fd dr have "filter_data df' [lo, hi] (categories ui) = Inr fd"
    using filter_data_unfold_range [of df' lo hi rest "categories ui"] by simp
  from filter_data_result [OF this]
  have "fd = df'\<lparr>rows := filter (row_is_kept df' lo hi (categories ui)) (rows df')\<rparr>" .
  with c dr show ?thesis
    by (simp add: to_csv_def columns_def)
qed

theorem csv_export_rows_witness:
  "show_analysis sample_env sample_widgets sample_table = (sample_table, Completed sample_report) \<and>
   header (csv sample_report) = columns sample_table \<and>
   records (csv sample_report) = rows sample_table"
proof -
  have f: "filter (row_is_kept sample_table 19358 19360 (categories sample_widgets))
             (rows sample_table) = rows sample_table"
    by code_simp
  have d: "date_range sample_widgets = [19358, 19360]"
    by (simp add: sample_widgets_def)
  from csv_export_rows [OF sample_run] d f sample_run show ?thesis
    by auto
qed

text \<open>
  C7 as stated fails on the sample: the pass completes, the records of the export are the
  three orders from 2023-01-01 to 2023-01-03 in the order of the table, and that is not
  the descending order of the order date.
\<close>

theorem csv_export_not_sorted_counterexample:
  "show_analysis sample_env sample_widgets sample_table = (sample_table, Completed sample_report) \<and>
   csv sample_report = \<lparr>header = REQUIRED_COLUMNS, records = rows sample_table\<rparr> \<and>
   \<not> sorted_by_order_date_desc (csv sample_report)"
  by code_simp

section \<open>The table after a pass\<close>

lemma those_dates:
  assumes "list_all (\<lambda>c. case c of Date t \<Rightarrow> True | Null \<Rightarrow> True | _ \<Rightarrow> False) cs"
  shows "those (map (to_datetime_cell parse) cs) = Some cs"
  using assms
proof (induction cs)
  case Nil
  then show ?case by simp
next
  case (Cons c cs)
  then show ?case by (cases c) (simp_all add: to_datetime_cell_def)
qed

lemma to_datetime_same:
  assumes "datetime_series s"
  shows "to_datetime parse s = Some s"
  using assms by (cases s) (simp add: to_datetime_def datetime_series_def those_dates)

lemma update_own_cell: "r[i := cell_at r i] = r"
  by (cases "i < length r") (simp_all add: cell_at_def list_update_beyond)

lemma update_own_column:
  "map (\<lambda>(r, c). r[i := c]) (zip xs (map (\<lambda>r. cell_at r i) xs)) = xs"
  by (induction xs) (simp_all add: update_own_cell)

lemma setitem_same:
  assumes "getitem df col = Inr s"
  shows "setitem df col s = df"
proof -
  from assms obtain i where i: "index_of col (columns df) = Some i"
    and s: "s = \<lparr>dtype = snd (cols df ! i), cells = map (\<lambda>r. cell_at r i) (rows df)\<rparr>"
    by (auto simp: getitem_def split: option.splits)
  from index_of_Some_less [OF i] have "i < length (cols df)" "fst (cols df ! i) = col"
    by (auto simp: columns_def)
  then have c: "(cols df)[i := (col, snd (cols df ! i))] = cols df"
    by (metis list_update_id prod.collapse)
  show ?thesis
    by (simp add: setitem_def i s c update_own_column)
qed

lemma convert_dates_same:
  assumes "normalized df"
  shows "convert_dates parse df = (df, True)"
proof -
  from assms obtain od sd where od: "getitem df ''Order Date'' = Inr od" "datetime_series od"
    and sd: "getitem df ''Ship Date'' = Inr sd" "datetime_series sd"
    by (auto simp: normalized_def split: sum.splits)
  show ?thesis
    by (simp add: convert_dates_def od sd to_datetime_same setitem_same)
qed

lemma those_to_datetime:
  assumes "those (map (to_datetime_cell parse) cs) = Some zs"
  shows "length zs = length cs \<and>
         list_all (\<lambda>c. case c of Date t \<Rightarrow> True | Null \<Rightarrow> True | _ \<Rightarrow> False) zs"
  using assms
proof (induction cs arbitrary: zs)
  case Nil
  then show ?case by simp
next
  case (Cons c cs)
  then show ?case
    by (cases c) (auto simp: to_datetime_cell_def split: option.splits)
qed

lemma to_datetime_result:
  assumes "to_datetime parse s = Some s'"
  shows "datetime_series s' \<and> length (cells s') = length (cells s)"
  using assms those_to_datetime [of parse "cells s"]
  by (auto simp: to_datetime_def datetime_series_def)

lemma setitem_at:
  assumes "index_of col (columns df) = Some i"
  shows "setitem df col s =
           df\<lparr>cols := (cols df)[i := (col, dtype s)],
              rows := map (\<lambda>(r, c). r[i := c]) (zip (rows df) (cells s))\<rparr>"
  using assms by (simp add: setitem_def)

lemma columns_setitem:
  assumes "index_of col (columns df) = Some i"
  shows "columns (setitem df col s) = columns df"
proof -
  from index_of_Some_less [OF assms] have "i < length (cols df)" "fst (cols df ! i) = col"
    by (auto simp: columns_def)
  then have "map fst ((cols df)[i := (col, dtype s)]) = map fst (cols df)"
    by (simp add: map_update list_update_same_conv)
  then show ?thesis
    by (simp add: setitem_at [OF assms] columns_def)
qed

lemma cell_at_update:
  "cell_at (r[i := c]) j = (if j = i \<and> i < length r then c else cell_at r j)"
  by (auto simp: cell_at_def)

lemma other_column_after_update:
  assumes "length cs = length xs" and "j \<noteq> i"
  shows "map (\<lambda>r. cell_at r j) (map (\<lambda>(r, c). r[i := c]) (zip xs cs)) = map (\<lambda>r. cell_at r j) xs"
  using assms
  by (induction xs cs rule: list_induct2') (simp_all add: cell_at_update)

lemma own_column_after_update:
  assumes "length cs = length xs"
    and "list_all (\<lambda>c. case c of Date t \<Rightarrow> True | Null \<Rightarrow> True | _ \<Rightarrow> False) cs"
  shows "list_all (\<lambda>c. case c of Date t \<Rightarrow> True | Null \<Rightarrow> True | _ \<Rightarrow> False)
           (map (\<lambda>r. cell_at r i) (map (\<lambda>(r, c). r[i := c]) (zip xs cs)))"
  using assms
  by (induction xs cs rule: list_induct2') (simp_all add: cell_at_update cell_at_def)

lemma getitem_setitem_same:
  assumes "index_of col (columns df) = Some i" and "datetime_series s"
    and "length (cells s) = length (rows df)"
  shows "\<exists>s'. getitem (setitem df col s) col = Inr s' \<and> datetime_series s'"
proof -
  from index_of_Some_less [OF assms(1)] have "i < length (cols df)"
    by (auto simp: columns_def)
  then show ?thesis
    using assms own_column_after_update [of "cells s" "rows df" i]
    by (simp add: getitem_def columns_setitem [OF assms(1)])
       (simp add: setitem_at [OF assms(1)] datetime_series_def)
qed

lemma getitem_setitem_other:
  assumes "index_of col (columns df) = Some i" and "index_of col' (columns df) = Some j"
    and "col' \<noteq> col" and "length (cells s) = length (rows df)"
  shows "getitem (setitem df col s) col' = getitem df col'"
proof -
  from index_of_Some_less [OF assms(1)] index_of_Some_less [OF assms(2)] assms(3)
  have ne: "j \<noteq> i" by auto
  then show ?thesis
    using assms other_column_after_update [of "cells s" "rows df" j i]
    by (simp add: getitem_def columns_setitem [OF assms(1)])
       (simp add: setitem_at [OF assms(1)])
qed

lemma length_rows_setitem:
  assumes "index_of col (columns df) = Some i" and "length (cells s) = length (rows df)"
  shows "length (rows (setitem df col s)) = length (rows df)"
  using assms by (simp add: setitem_at [OF assms(1)])

lemma convert_dates_normalizes:
  assumes "convert_dates parse df = (df', True)"
  shows "normalized df'"
proof -
  from assms obtain od od' where od: "getitem df ''Order Date'' = Inr od"
    "to_datetime parse od = Some od'"
    by (auto simp: convert_dates_def Let_def split: sum.splits option.splits)
  define df1 where "df1 = setitem df ''Order Date'' od'"
  from assms od obtain sd sd' where sd: "getitem df1 ''Ship Date'' = Inr sd"
    "to_datetime parse sd = Some sd'" and r: "df' = setitem df1 ''Ship Date'' sd'"
    by (auto simp: convert_dates_def Let_def df1_def split: sum.splits option.splits)
  from od(1) obtain i where i: "index_of ''Order Date'' (columns df) = Some i"
    and lo: "length (cells od) = length (rows df)"
    by (auto simp: getitem_def split: option.splits)
  from to_datetime_result [OF od(2)] lo
  have od': "datetime_series od'" "length (cells od') = length (rows df)"
    by simp_all
  have c1: "columns df1 = columns df"
    by (simp add: df1_def columns_setitem [OF i])
  have l1: "length (rows df1) = length (rows df)"
    by (simp add: df1_def length_rows_setitem [OF i od'(2)])
  from getitem_setitem_same [OF i od'] obtain o1
    where o1: "getitem df1 ''Order Date'' = Inr o1" "datetime_series o1"
    by (auto simp: df1_def)
  from sd(1) obtain j where j: "index_of ''Ship Date'' (columns df1) = Some j"
    and ls: "length (cells sd) = length (rows df1)"
    by (auto simp: getitem_def split: option.splits)
  from to_datetime_result [OF sd(2)] ls
  have sd': "datetime_series sd'" "length (cells sd') = length (rows df1)"
    by simp_all
  from i c1 have i1: "index_of ''Order Date'' (columns df1) = Some i"
    by simp
  from getitem_setitem_same [OF j sd'] obtain s2
    where s2: "getitem df' ''Ship Date'' = Inr s2" "datetime_series s2"
    by (auto simp: r)
  have "getitem df' ''Order Date'' = getitem df1 ''Order Date''"
    unfolding r by (rule getitem_setitem_other [OF j i1 _ sd'(2)]) simp
  with o1 s2 show ?thesis
    by (simp add: normalized_def)
qed

lemma show_analysis_converts_raw_table:
  "fst (show_analysis upload_env sample_widgets raw_table) \<noteq> raw_table \<and>
   normalized (fst (show_analysis upload_env sample_widgets raw_table))"
  by code_simp

text \<open>
  C8. The only writes into the table are the two date assignments at the head of
  show_analysis; the filter, the summary, the aggregates and the forecast are computed
  from the table into new values. On a Dataset, whose date columns are datetime columns
  already, the two assignments put back the columns as they are: after every pass,
  however it ends, the table has the columns and rows it had before.
\<close>

theorem show_analysis_keeps_dataset:
  assumes "normalized df"
  shows "fst (show_analysis env ui df) = df"
  by (simp add: show_analysis_def convert_dates_same [OF assms])

theorem show_analysis_keeps_dataset_witness:
  "normalized sample_table \<and> fst (show_analysis sample_env sample_widgets sample_table) = sample_table"
proof -
  have h: "normalized sample_table"
    by code_simp
  from show_analysis_keeps_dataset [OF h, of sample_env sample_widgets] h show ?thesis
    by simp
qed

section \<open>The negative-profit percentage\<close>

lemma negative_profit_pct_no_rows:
  assumes "rows df = []" and "''Profit'' \<in> set (columns df)"
  shows "negative_profit_pct df = Inr NaN"
proof -
  obtain s where "getitem df ''Profit'' = Inr s" "length (cells s) = length (rows df)"
    using getitem_mem [OF assms(2)] by blast
  with assms(1) show ?thesis
    by (simp add: negative_profit_pct_def count_negative_def np_divide_def len_def)
qed

lemma show_analysis_without_categories:
  "show_analysis sample_env no_category_widgets sample_table = (sample_table, Raised ValueError)"
  by code_simp

text \<open>
  C9 does not hold of the code. The profit margin has a guard for its denominator, the
  negative-profit percentage has none: on the table without rows that the filter leaves
  when no category is selected, the margin is 0 and the percentage is NaN.
\<close>

theorem negative_profit_pct_no_rows_is_nan:
  "filter_data sample_table [19358, 19360] [] = Inr no_rows_table \<and>
   negative_profit_pct no_rows_table = Inr NaN \<and>
   calculate_kpis no_rows_table =
     Inr \<lparr>total_sales = 0, total_profit = 0, profit_margin = 0, avg_order_value = NaN,
          total_orders = 0\<rparr>"
  by code_simp

section \<open>The short product name\<close>

lemma short_name_of_short: "length name \<le> 30 \<Longrightarrow> short_name name = name @ ''...''"
  by (simp add: short_name_def)

lemma short_name_of_long: "30 < length name \<Longrightarrow> length (short_name name) = 33"
  by (simp add: short_name_def)

text \<open>
  C10 does not hold of the code. The source slices the name to 30 characters and appends
  the dots to every name: the nine characters of the sample's first product, which the
  slice leaves whole, get the dots as well.
\<close>

theorem short_name_of_short_product:
  "short_name ''iPhone 14'' = ''iPhone 14...'' \<and> length ''iPhone 14'' = 9"
  by (simp add: short_name_def)

end
